theory Spec2Isabelle
  imports
    Complex_Main
    "HOL-Library.Sublist"
    "HOL-Library.Char_ord"
    "HOL-Library.List_Lexorder"
    "HOL-Library.Product_Lexorder"
begin

section \<open>Feature preparation for the sleep-state series (run/prepare\_data.py)\<close>

text \<open>
  The script normalises two accelerometer signals, derives time-of-day features and writes
  one array file per feature and series. Floating-point numbers are read as real numbers
  here: rounding, overflow and signed zeros are not modelled, so an equality of this theory
  is an equality of the exact values the floating-point code approximates. The values of
  the two signal columns keep the non-finite floats, NaN among them, in the type
  \<open>float\<close>. Integers, those of Python and those of a column, are \<open>int\<close>: the width of
  an integer column is not modelled.
\<close>

subsection \<open>Module constants\<close>

definition FEATURE_NAMES :: "string list" where
  "FEATURE_NAMES =
     [''anglez'', ''enmo'', ''hour_sin'', ''hour_cos'',
      ''signal_awake'', ''signal_onset'', ''signal_poly'']"

definition ANGLEZ_MEAN :: real where "ANGLEZ_MEAN = - 8.810476"
definition ANGLEZ_STD :: real where "ANGLEZ_STD = 35.521877"
definition ENMO_MEAN :: real where "ENMO_MEAN = 0.041315"
definition ENMO_STD :: real where "ENMO_STD = 0.101829"

text \<open>The two parameter dictionaries, with their five keys as fields.\<close>

record mixture_features =
  w1 :: real
  mu1 :: real
  sigma1 :: real
  mu2 :: real
  sigma2 :: real

definition onset_features :: mixture_features where
  "onset_features =
     \<lparr>w1 = 0.97292814, mu1 = 2.12861738, sigma1 = 1.699476,
      mu2 = 22.7643724, sigma2 = 0.42483832\<rparr>"

definition awake_features :: mixture_features where
  "awake_features =
     \<lparr>w1 = 0.47799486, mu1 = 10.89539674, sigma1 = 0.87151052,
      mu2 = 11.82689931, sigma2 = 2.06792452\<rparr>"

definition coefficients :: "real list" where
  "coefficients =
     [0.7498337722857453, - 0.29120336781669365, 0.0325499456141388, - 0.000865744935362603]"

subsection \<open>The lookup tables\<close>

definition poly_fit :: "real \<Rightarrow> real" where
  "poly_fit time =
     coefficients ! 0 + coefficients ! 1 * time + coefficients ! 2 * time ^ 2
       + coefficients ! 3 * time ^ 3"

text \<open>
  \<open>scipy.stats.norm.pdf(x, loc, scale)\<close>: the library standardises the argument,
  evaluates the standard normal density \<open>exp (- y\<^sup>2 / 2) / sqrt (2 pi)\<close> and divides by
  the scale.
\<close>

definition norm_pdf :: "real \<Rightarrow> real \<Rightarrow> real \<Rightarrow> real" where
  "norm_pdf x loc scale = exp (- (((x - loc) / scale) ^ 2) / 2) / sqrt (2 * pi) / scale"

definition calc_mixture_gaussian :: "real \<Rightarrow> mixture_features \<Rightarrow> real" where
  "calc_mixture_gaussian time kw =
     w1 kw * norm_pdf time (mu1 kw) (sigma1 kw)
       + (1 - w1 kw) * norm_pdf time (mu2 kw) (sigma2 kw)"

text \<open>\<open>np.arange(0, 240)\<close>.\<close>

definition new_time_units :: "int list" where
  "new_time_units = [0..239]"

text \<open>
  A dictionary comprehension \<open>{k: f(k) for k in ks}\<close> stores the keys in the order of
  \<open>ks\<close>; a later key overwrites an equal earlier one.
\<close>

definition dict_comprehension :: "('k \<Rightarrow> 'v) \<Rightarrow> 'k list \<Rightarrow> ('k \<rightharpoonup> 'v)" where
  "dict_comprehension f ks = fold (\<lambda>k m. m(k \<mapsto> f k)) ks Map.empty"

definition signal_awake_dict :: "int \<rightharpoonup> real" where
  "signal_awake_dict =
     dict_comprehension (\<lambda>hour. calc_mixture_gaussian (real_of_int hour / 10) awake_features)
       new_time_units"

definition signal_onset_dict :: "int \<rightharpoonup> real" where
  "signal_onset_dict =
     dict_comprehension (\<lambda>hour. calc_mixture_gaussian (real_of_int hour / 10) onset_features)
       new_time_units"

definition signal_poly_dict :: "int \<rightharpoonup> real" where
  "signal_poly_dict =
     dict_comprehension (\<lambda>hour. poly_fit (real_of_int hour / 10)) new_time_units"

subsection \<open>The formulas of the specification\<close>

text \<open>
  The Gaussian density and the two-component mixture as the specification writes them, to
  compare the tables with.
\<close>

definition Gaussian_pdf_spec :: "real \<Rightarrow> real \<Rightarrow> real \<Rightarrow> real" where
  "Gaussian_pdf_spec t mu sigma =
     exp (- ((t - mu) ^ 2) / (2 * sigma ^ 2)) / (sigma * sqrt (2 * pi))"

definition mixture_spec :: "real \<Rightarrow> real \<Rightarrow> real \<Rightarrow> real \<Rightarrow> real \<Rightarrow> real \<Rightarrow> real" where
  "mixture_spec t w m1 s1 m2 s2 =
     w * Gaussian_pdf_spec t m1 s1 + (1 - w) * Gaussian_pdf_spec t m2 s2"

subsection \<open>Circular encoding\<close>

text \<open>
  \<open>to_coord\<close> builds two column expressions; the model gives their values on one element
  \<open>x\<close> of the column, each with the name the alias sets. \<open>%\<close> is the floored modulo.
  The parameter \<open>max_\<close> of the source is \<open>max'\<close> here.
\<close>

definition to_coord :: "int \<Rightarrow> int \<Rightarrow> string \<Rightarrow> (string \<times> real) list" where
  "to_coord x max' name =
     (let rad = 2 * pi * real_of_int (x mod max') / real_of_int max';
          x_sin = sin rad;
          x_cos = cos rad
      in [(name @ ''_sin'', x_sin), (name @ ''_cos'', x_cos)])"

subsection \<open>Time of day\<close>

text \<open>
  A parsed timestamp is a number of microseconds since the Unix epoch, in UTC; the
  accessors \<open>dt.hour()\<close> and \<open>dt.minute()\<close> read the hour of the day and the minute of the
  hour from it.
\<close>

type_synonym datetime = int

definition dt_hour :: "datetime \<Rightarrow> int" where
  "dt_hour t = (t div 3600000000) mod 24"

definition dt_minute :: "datetime \<Rightarrow> int" where
  "dt_minute t = (t div 60000000) mod 60"

text \<open>The key expression of \<open>add_feature\<close>, on the hour and the minute of one row.\<close>

definition hour_plus_minute :: "int \<Rightarrow> int \<Rightarrow> int" where
  "hour_plus_minute hour minute = hour * 10 + minute div 6"

subsection \<open>Column values, rows and tables\<close>

text \<open>
  A float of a column is a finite number, an infinity or NaN. Only the arithmetic the
  script applies to a column is defined: a column minus a literal, a column divided by a
  literal, a literal times a column, with the IEEE results for the non-finite values.
\<close>

datatype float = Finite real | PosInf | NegInf | NaN

fun float_sub :: "float \<Rightarrow> real \<Rightarrow> float" where
  "float_sub (Finite a) c = Finite (a - c)"
| "float_sub PosInf c = PosInf"
| "float_sub NegInf c = NegInf"
| "float_sub NaN c = NaN"

fun float_div :: "float \<Rightarrow> real \<Rightarrow> float" where
  "float_div (Finite a) c =
     (if c \<noteq> 0 then Finite (a / c)
      else if 0 < a then PosInf else if a < 0 then NegInf else NaN)"
| "float_div PosInf c = (if c < 0 then NegInf else PosInf)"
| "float_div NegInf c = (if c < 0 then PosInf else NegInf)"
| "float_div NaN c = NaN"

fun float_rmul :: "real \<Rightarrow> float \<Rightarrow> float" where
  "float_rmul c (Finite a) = Finite (c * a)"
| "float_rmul c PosInf = (if 0 < c then PosInf else if c < 0 then NegInf else NaN)"
| "float_rmul c NegInf = (if 0 < c then NegInf else if c < 0 then PosInf else NaN)"
| "float_rmul c NaN = NaN"

text \<open>
  A table is the list of its rows, a row a finite map from column names to values. Null
  values and the schema of a table without rows are not modelled.
\<close>

datatype cell = StrVal string | FloatVal float | IntVal int | DatetimeVal datetime

type_synonym row = "string \<rightharpoonup> cell"
type_synonym dataframe = "row list"
type_synonym path = "string list"

datatype error =
    NameError string
  | ValueError string
  | KeyError int
  | TypeError string
  | OSError path
  | ComputeError string
  | ColumnNotFoundError string
  | SchemaError string
  | ShapeError string

definition bind_err :: "error + 'a \<Rightarrow> ('a \<Rightarrow> error + 'b) \<Rightarrow> error + 'b" where
  "bind_err m f = (case m of Inl e \<Rightarrow> Inl e | Inr x \<Rightarrow> f x)"

fun mapM_err :: "('a \<Rightarrow> error + 'b) \<Rightarrow> 'a list \<Rightarrow> error + 'b list" where
  "mapM_err f [] = Inr []"
| "mapM_err f (x # xs) =
     bind_err (f x) (\<lambda>y. bind_err (mapM_err f xs) (\<lambda>ys. Inr (y # ys)))"

text \<open>\<open>pl.col(name)\<close> on one row, and the same where the expression needs a type.\<close>

definition col :: "string \<Rightarrow> row \<Rightarrow> error + cell" where
  "col name r = (case r name of None \<Rightarrow> Inl (ColumnNotFoundError name) | Some v \<Rightarrow> Inr v)"

definition float_col :: "string \<Rightarrow> row \<Rightarrow> error + float" where
  "float_col name r =
     bind_err (col name r) (\<lambda>v. case v of FloatVal x \<Rightarrow> Inr x | _ \<Rightarrow> Inl (SchemaError name))"

definition str_col :: "string \<Rightarrow> row \<Rightarrow> error + string" where
  "str_col name r =
     bind_err (col name r) (\<lambda>v. case v of StrVal x \<Rightarrow> Inr x | _ \<Rightarrow> Inl (SchemaError name))"

definition datetime_col :: "string \<Rightarrow> row \<Rightarrow> error + datetime" where
  "datetime_col name r =
     bind_err (col name r) (\<lambda>v. case v of DatetimeVal x \<Rightarrow> Inr x | _ \<Rightarrow> Inl (SchemaError name))"

text \<open>
  \<open>with_columns\<close> adds the named values to a row, replacing a column of the same name;
  \<open>select\<close> keeps the named columns and fails on a name the row does not have.
\<close>

definition with_columns :: "(string \<times> cell) list \<Rightarrow> row \<Rightarrow> row" where
  "with_columns nvs r = fold (\<lambda>nv m. m(fst nv \<mapsto> snd nv)) nvs r"

definition select_cols :: "string list \<Rightarrow> row \<Rightarrow> error + row" where
  "select_cols names r =
     (case filter (\<lambda>n. r n = None) names of
        [] \<Rightarrow> Inr (\<lambda>n. if n \<in> set names then r n else None)
      | n # _ \<Rightarrow> Inl (ColumnNotFoundError n))"

definition get_column :: "string \<Rightarrow> dataframe \<Rightarrow> error + cell list" where
  "get_column name df = mapM_err (col name) df"

text \<open>\<open>to_numpy(zero_copy_only=True)\<close>: a column of strings has no zero-copy array.\<close>

definition to_numpy :: "cell list \<Rightarrow> error + cell list" where
  "to_numpy x =
     (if list_ex (\<lambda>v. case v of StrVal _ \<Rightarrow> True | _ \<Rightarrow> False) x
      then Inl (ValueError ''zero_copy_only'') else Inr x)"

subsection \<open>Feature assembly\<close>

definition dict_lookup :: "(int \<rightharpoonup> real) \<Rightarrow> int \<Rightarrow> error + real" where
  "dict_lookup d k = (case d k of None \<Rightarrow> Inl (KeyError k) | Some v \<Rightarrow> Inr v)"

text \<open>
  An expression gives a value, or an error, on each row. The first statement of
  \<open>add_feature\<close> adds the two circular coordinates of the hour to each row.
\<close>

type_synonym expr = "row \<Rightarrow> error + cell"

definition hour_coords_row :: "row \<Rightarrow> error + row" where
  "hour_coords_row r =
     bind_err (datetime_col ''timestamp'' r) (\<lambda>t.
       Inr (with_columns
              (map (\<lambda>nv. (fst nv, FloatVal (Finite (snd nv))))
                 (to_coord (dt_hour t) 24 ''hour'')) r))"

text \<open>
  The key expression \<open>hour * 10 + minute // 6\<close> of the timestamp, and \<open>Expr.map\<close> with a
  dictionary, read as the expression that looks each key up, a missing key raising.
\<close>

definition hour_plus_minute_expr :: expr where
  "hour_plus_minute_expr r =
     bind_err (datetime_col ''timestamp'' r) (\<lambda>t.
       Inr (IntVal (hour_plus_minute (dt_hour t) (dt_minute t))))"

definition expr_map_dict :: "(int \<rightharpoonup> real) \<Rightarrow> expr \<Rightarrow> expr" where
  "expr_map_dict d e r =
     bind_err (e r) (\<lambda>v.
       case v of
         IntVal k \<Rightarrow> bind_err (dict_lookup d k) (\<lambda>x. Inr (FloatVal (Finite x)))
       | _ \<Rightarrow> Inl (SchemaError ''map''))"

text \<open>
  \<open>pl.Series\<close> called with an expression. The constructor takes the values of a column;
  an expression is none of the kinds of values it accepts, and it raises a TypeError.
  This happens while the arguments of the second \<open>with_columns\<close> are built, so no key is
  looked up.
\<close>

definition pl_Series :: "expr \<Rightarrow> error + cell list" where
  "pl_Series e = Inl (TypeError ''Series'')"

text \<open>
  \<open>with_columns\<close> with a column of values under a name: the values go to the rows by
  position, and a column of another length is an error.
\<close>

definition with_series :: "string \<Rightarrow> cell list \<Rightarrow> dataframe \<Rightarrow> error + dataframe" where
  "with_series name xs df =
     (if length xs = length df then Inr (map (\<lambda>xr. (snd xr)(name \<mapsto> fst xr)) (zip xs df))
      else Inl (ShapeError name))"

text \<open>
  \<open>add_feature\<close>: the coordinates of the hour for every row, then the three columns from
  \<open>pl.Series\<close>, then the selection of the series identifier and the seven features. The
  first call of \<open>pl.Series\<close> raises, so every call of \<open>add_feature\<close> that gets past the
  coordinates ends with the TypeError.
\<close>

definition add_feature :: "dataframe \<Rightarrow> error + dataframe" where
  "add_feature series_df =
     bind_err (mapM_err hour_coords_row series_df) (\<lambda>df1.
     bind_err (pl_Series (expr_map_dict signal_awake_dict hour_plus_minute_expr)) (\<lambda>awake.
     bind_err (pl_Series (expr_map_dict signal_onset_dict hour_plus_minute_expr)) (\<lambda>onset.
     bind_err (pl_Series (expr_map_dict signal_poly_dict hour_plus_minute_expr)) (\<lambda>poly.
     bind_err (with_series ''signal_awake'' awake df1) (\<lambda>df2.
     bind_err (with_series ''signal_onset'' onset df2) (\<lambda>df3.
     bind_err (with_series ''signal_poly'' poly df3) (\<lambda>df4.
       mapM_err (select_cols (''series_id'' # FEATURE_NAMES)) df4)))))))"

subsection \<open>Paths and the file system\<close>

text \<open>
  A path is the list of its components, an absolute one starting with the component
  \<open>/\<close>. \<open>Path\<close> splits a string at the slashes and drops empty components and single
  dots; \<open>path_div\<close> is the operator \<open>/\<close> of a path and a string, where an absolute right
  operand replaces the left one.
\<close>

fun split_slash :: "string \<Rightarrow> string list" where
  "split_slash [] = [[]]"
| "split_slash (c # cs) =
     (if c = CHR ''/'' then [] # split_slash cs
      else (case split_slash cs of [] \<Rightarrow> [[c]] | x # xs \<Rightarrow> (c # x) # xs))"

definition Path :: "string \<Rightarrow> path" where
  "Path s =
     (if take 1 s = ''/'' then [''/''] else [])
       @ filter (\<lambda>c. c \<noteq> [] \<and> c \<noteq> ''.'') (split_slash s)"

definition path_div :: "path \<Rightarrow> string \<Rightarrow> path" where
  "path_div p s = (if take 1 s = ''/'' then Path s else p @ Path s)"

fun path_str :: "path \<Rightarrow> string" where
  "path_str [] = ''.''"
| "path_str [c] = c"
| "path_str (c # d # cs) =
     (if c = ''/'' then c @ path_str (d # cs) else c @ ''/'' @ path_str (d # cs))"

text \<open>
  The file system maps a path to what is there: a directory, an array file with its
  values, or a columnar table file with its rows. The world is the file system and the
  list of the input and output operations performed so far, oldest first.
\<close>

datatype node = Dir | Npy "cell list" | Parquet dataframe

type_synonym filesystem = "path \<rightharpoonup> node"

datatype io_event =
    PathExists path
  | Rmtree path
  | Print string
  | ScanParquet path
  | Mkdir path
  | NpSave path

record world =
  fs :: filesystem
  events :: "io_event list"

definition log_event :: "io_event \<Rightarrow> world \<Rightarrow> world" where
  "log_event e w = w\<lparr>events := events w @ [e]\<rparr>"

definition path_exists :: "path \<Rightarrow> world \<Rightarrow> bool \<times> world" where
  "path_exists p w = (fs w p \<noteq> None, log_event (PathExists p) w)"

text \<open>\<open>shutil.rmtree\<close> removes a directory and all below it, and fails on anything else.\<close>

definition rmtree :: "path \<Rightarrow> world \<Rightarrow> (error + unit) \<times> world" where
  "rmtree p w =
     (case fs w p of
        Some Dir \<Rightarrow>
          (Inr (), log_event (Rmtree p) (w\<lparr>fs := (\<lambda>q. if prefix p q then None else fs w q)\<rparr>))
      | _ \<Rightarrow> (Inl (OSError p), log_event (Rmtree p) w))"

definition py_print :: "string \<Rightarrow> world \<Rightarrow> world" where
  "py_print s w = log_event (Print s) w"

text \<open>
  \<open>pl.scan_parquet\<close>: the lazy frame stands for the rows of the file, which nothing
  writes between the scan and the collection. A path without a table file fails.
\<close>

definition scan_parquet :: "path \<Rightarrow> world \<Rightarrow> (error + dataframe) \<times> world" where
  "scan_parquet p w =
     (case fs w p of
        Some (Parquet df) \<Rightarrow> (Inr df, log_event (ScanParquet p) w)
      | _ \<Rightarrow> (Inl (OSError p), log_event (ScanParquet p) w))"

text \<open>
  \<open>mkdir(parents=True, exist_ok=True)\<close>: every missing directory on the way is created,
  an existing directory is kept, a file in the way is an error.
\<close>

fun mkdir_parents :: "path \<Rightarrow> path \<Rightarrow> filesystem \<Rightarrow> error + filesystem" where
  "mkdir_parents done [] f = Inr f"
| "mkdir_parents done (c # cs) f =
     (case f (done @ [c]) of
        None \<Rightarrow> mkdir_parents (done @ [c]) cs (f(done @ [c] \<mapsto> Dir))
      | Some Dir \<Rightarrow> mkdir_parents (done @ [c]) cs f
      | Some _ \<Rightarrow> Inl (OSError (done @ [c])))"

definition mkdir :: "path \<Rightarrow> world \<Rightarrow> (error + unit) \<times> world" where
  "mkdir p w =
     (case mkdir_parents [] p (fs w) of
        Inl e \<Rightarrow> (Inl e, log_event (Mkdir p) w)
      | Inr f \<Rightarrow> (Inr (), log_event (Mkdir p) (w\<lparr>fs := f\<rparr>)))"

text \<open>
  \<open>np.save\<close> writes the array file, replacing a file of that name; the directory of the
  file has to exist (the current directory always does) and the name must not be a
  directory.
\<close>

definition np_save :: "path \<Rightarrow> cell list \<Rightarrow> world \<Rightarrow> (error + unit) \<times> world" where
  "np_save p x w =
     (if (butlast p = [] \<or> fs w (butlast p) = Some Dir) \<and> fs w p \<noteq> Some Dir
      then (Inr (), log_event (NpSave p) (w\<lparr>fs := (fs w)(p \<mapsto> Npy x)\<rparr>))
      else (Inl (OSError p), log_event (NpSave p) w))"

subsection \<open>The exporter\<close>

fun save_columns :: "dataframe \<Rightarrow> string list \<Rightarrow> path \<Rightarrow> world \<Rightarrow> (error + unit) \<times> world" where
  "save_columns this_series_df [] output_dir w = (Inr (), w)"
| "save_columns this_series_df (col_name # columns) output_dir w =
     (case bind_err (get_column col_name this_series_df) to_numpy of
        Inl e \<Rightarrow> (Inl e, w)
      | Inr x \<Rightarrow>
          (case np_save (path_div output_dir (col_name @ ''.npy'')) x w of
             (Inl e, w') \<Rightarrow> (Inl e, w')
           | (Inr u, w') \<Rightarrow> save_columns this_series_df columns output_dir w'))"

definition save_each_series ::
    "dataframe \<Rightarrow> string list \<Rightarrow> path \<Rightarrow> world \<Rightarrow> (error + unit) \<times> world" where
  "save_each_series this_series_df columns output_dir w =
     (case mkdir output_dir w of
        (Inl e, w') \<Rightarrow> (Inl e, w')
      | (Inr u, w') \<Rightarrow> save_columns this_series_df columns output_dir w')"

subsection \<open>The driver\<close>

record cfg_dir =
  data_dir :: string
  processed_dir :: string

record PrepareDataConfig =
  dir :: cfg_dir
  phase :: string

text \<open>
  The names bound in the module when \<open>main\<close> runs: the imports, the assignments and the
  function definitions, in the order of the file. Lines 93 and 94, which would define
  \<open>deg_to_rad\<close>, are a comment. The built-in names the module uses come after.
\<close>

definition module_globals :: "string list" where
  "module_globals =
     [''shutil'', ''Path'', ''hydra'', ''np'', ''pl'', ''norm'', ''tqdm'',
      ''PrepareDataConfig'', ''trace'',
      ''SERIES_SCHEMA'', ''FEATURE_NAMES'',
      ''ANGLEZ_MEAN'', ''ANGLEZ_STD'', ''ENMO_MEAN'', ''ENMO_STD'',
      ''onset_features'', ''awake_features'', ''coefficients'',
      ''poly_fit'', ''calc_mixture_gaussian'', ''new_time_units'',
      ''signal_awake_dict'', ''signal_onset_dict'', ''signal_poly_dict'',
      ''to_coord'', ''add_feature'', ''save_each_series'', ''main'']"

definition builtins_used :: "string list" where
  "builtins_used = [''print'', ''ValueError'']"

definition load_global :: "string \<Rightarrow> error + unit" where
  "load_global name =
     (if name \<in> set module_globals \<or> name \<in> set builtins_used then Inr ()
      else Inl (NameError name))"

text \<open>
  The body the comment of lines 93 and 94 holds. It stands in the branch after a
  successful lookup of the name, which gives the rest of the pipeline a reading.
\<close>

definition deg_to_rad_comment :: "float \<Rightarrow> float" where
  "deg_to_rad_comment x = float_rmul (pi / 180) x"

text \<open>The two normalising expressions of \<open>main\<close>, on one value of the column.\<close>

definition normalize_anglez :: "float \<Rightarrow> float" where
  "normalize_anglez anglez = float_div (float_sub anglez ANGLEZ_MEAN) ANGLEZ_STD"

definition normalize_enmo :: "float \<Rightarrow> float" where
  "normalize_enmo enmo = float_div (float_sub enmo ENMO_MEAN) ENMO_STD"

text \<open>
  The expressions of \<open>with_columns\<close> and the selection after it, on one row. All
  expressions read the row as it was; an expression without alias keeps the name of its
  column, so the normalised values replace \<open>anglez\<close> and \<open>enmo\<close>. The parsing of the
  timestamp text, \<open>str.to_datetime\<close> with the format of the script, is a parameter.
\<close>

definition preprocess_row :: "(string \<Rightarrow> datetime option) \<Rightarrow> row \<Rightarrow> error + row" where
  "preprocess_row to_datetime r =
     bind_err (str_col ''timestamp'' r) (\<lambda>s.
     bind_err (case to_datetime s of None \<Rightarrow> Inl (ComputeError s) | Some t \<Rightarrow> Inr t) (\<lambda>t.
     bind_err (float_col ''anglez'' r) (\<lambda>anglez.
     bind_err (float_col ''enmo'' r) (\<lambda>enmo.
       select_cols [''series_id'', ''anglez'', ''enmo'', ''timestamp'', ''anglez_rad'']
         (with_columns
            [(''timestamp'', DatetimeVal t),
             (''anglez_rad'', FloatVal (deg_to_rad_comment anglez)),
             (''anglez'', FloatVal (normalize_anglez anglez)),
             (''enmo'', FloatVal (normalize_enmo enmo))] r)))))"

text \<open>
  The sort keys of a row. After the selection above the timestamp is a datetime; the
  series identifier of a table of the input schema is a string.
\<close>

definition series_id_key :: "row \<Rightarrow> string" where
  "series_id_key r = (case r ''series_id'' of Some (StrVal s) \<Rightarrow> s | _ \<Rightarrow> [])"

definition timestamp_key :: "row \<Rightarrow> datetime" where
  "timestamp_key r = (case r ''timestamp'' of Some (DatetimeVal t) \<Rightarrow> t | _ \<Rightarrow> 0)"

text \<open>
  The preprocessing statement of \<open>main\<close>. Python evaluates the arguments of
  \<open>with_columns\<close> before the call, so the lookup of the name \<open>deg_to_rad\<close> comes before
  any row is read.
\<close>

definition preprocess :: "(string \<Rightarrow> datetime option) \<Rightarrow> dataframe \<Rightarrow> error + dataframe" where
  "preprocess to_datetime series_lf =
     bind_err (load_global ''deg_to_rad'') (\<lambda>u.
     bind_err (mapM_err (preprocess_row to_datetime) series_lf) (\<lambda>collected.
       Inr (sort_key (\<lambda>r. (series_id_key r, timestamp_key r)) collected)))"

text \<open>\<open>group_by("series_id")\<close>: one group for each identifier, with its rows in order.\<close>

definition group_by_series_id :: "dataframe \<Rightarrow> (cell option \<times> dataframe) list" where
  "group_by_series_id df =
     map (\<lambda>k. (k, filter (\<lambda>r. r ''series_id'' = k) df))
       (remdups (map (\<lambda>r. r ''series_id'') df))"

fun save_features ::
    "path \<Rightarrow> (cell option \<times> dataframe) list \<Rightarrow> world \<Rightarrow> (error + unit) \<times> world" where
  "save_features phase_dir [] w = (Inr (), w)"
| "save_features phase_dir ((series_id, this_series_df) # groups) w =
     (case add_feature this_series_df of
        Inl e \<Rightarrow> (Inl e, w)
      | Inr features \<Rightarrow>
          (case series_id of
             Some (StrVal s) \<Rightarrow>
               (case save_each_series features FEATURE_NAMES (path_div phase_dir s) w of
                  (Inl e, w') \<Rightarrow> (Inl e, w')
                | (Inr u, w') \<Rightarrow> save_features phase_dir groups w')
           | _ \<Rightarrow> (Inl (TypeError ''series_id''), w)))"

text \<open>
  The local \<open>processed_dir\<close> of \<open>main\<close>, the output directory of the phase, and the input
  file of a phase.
\<close>

definition phase_dir_of :: "PrepareDataConfig \<Rightarrow> path" where
  "phase_dir_of cfg = path_div (Path (processed_dir (dir cfg))) (phase cfg)"

definition remove_phase_dir :: "PrepareDataConfig \<Rightarrow> world \<Rightarrow> (error + unit) \<times> world" where
  "remove_phase_dir cfg w =
     (case path_exists (phase_dir_of cfg) w of
        (True, wa) \<Rightarrow>
          (case rmtree (phase_dir_of cfg) wa of
             (Inl e, wb) \<Rightarrow> (Inl e, wb)
           | (Inr u, wb) \<Rightarrow>
               (Inr (),
                py_print (''Removed '' @ phase cfg @ '' dir: '' @ path_str (phase_dir_of cfg)) wb))
      | (False, wa) \<Rightarrow> (Inr (), wa))"

definition load_series :: "PrepareDataConfig \<Rightarrow> world \<Rightarrow> (error + dataframe) \<times> world" where
  "load_series cfg w =
     (if phase cfg \<in> set [''train'', ''test'']
      then scan_parquet (path_div (Path (data_dir (dir cfg))) (phase cfg @ ''_series.parquet'')) w
      else if phase cfg = ''dev''
      then scan_parquet
             (path_div (Path (processed_dir (dir cfg))) (phase cfg @ ''_series.parquet'')) w
      else (Inl (ValueError (''Invalid phase: '' @ phase cfg)), w))"

text \<open>
  \<open>main\<close>: remove the output directory of the phase, scan the input, preprocess, then add
  the features of each series and save them. The tracing and the progress wrappers have no
  part in the result, and the count of the series only sizes the progress bar.
\<close>

definition main ::
    "(string \<Rightarrow> datetime option) \<Rightarrow> PrepareDataConfig \<Rightarrow> world \<Rightarrow> (error + unit) \<times> world" where
  "main to_datetime cfg w =
     (case remove_phase_dir cfg w of
        (Inl e, wa) \<Rightarrow> (Inl e, wa)
      | (Inr u, wa) \<Rightarrow>
          (case load_series cfg wa of
             (Inl e, wb) \<Rightarrow> (Inl e, wb)
           | (Inr series_lf, wb) \<Rightarrow>
               (case preprocess to_datetime series_lf of
                  Inl e \<Rightarrow> (Inl e, wb)
                | Inr series_df \<Rightarrow>
                    save_features (phase_dir_of cfg) (group_by_series_id series_df) wb)))"

subsection \<open>Names for the statements, and a sample run\<close>

text \<open>
  The input file \<open>main\<close> scans for a valid phase, and the operations of the removal of the
  phase directory: the test for the directory and, if it is there, its removal and the
  message.
\<close>

definition input_path_of :: "PrepareDataConfig \<Rightarrow> path" where
  "input_path_of cfg =
     (if phase cfg \<in> set [''train'', ''test'']
      then path_div (Path (data_dir (dir cfg))) (phase cfg @ ''_series.parquet'')
      else path_div (Path (processed_dir (dir cfg))) (phase cfg @ ''_series.parquet''))"

definition removal_events :: "PrepareDataConfig \<Rightarrow> world \<Rightarrow> io_event list" where
  "removal_events cfg w =
     (if fs w (phase_dir_of cfg) = None then [PathExists (phase_dir_of cfg)]
      else [PathExists (phase_dir_of cfg), Rmtree (phase_dir_of cfg),
            Print (''Removed '' @ phase cfg @ '' dir: '' @ path_str (phase_dir_of cfg))])"

text \<open>
  A sample configuration and file system: an input table of one row for the phase
  \<open>train\<close>, and output directories of earlier runs for \<open>train\<close> and for a phase name that
  is not valid. The sample parser knows the one timestamp of the table.
\<close>

definition example_to_datetime :: "string \<Rightarrow> datetime option" where
  "example_to_datetime s =
     (if s = ''2020-01-01T00:06:00+0000'' then Some 1577837160000000 else None)"

definition example_row :: row where
  "example_row =
     [''series_id'' \<mapsto> StrVal ''A'', ''step'' \<mapsto> IntVal 0,
      ''anglez'' \<mapsto> FloatVal (Finite 1), ''enmo'' \<mapsto> FloatVal NaN,
      ''timestamp'' \<mapsto> StrVal ''2020-01-01T00:06:00+0000'']"

definition example_cfg :: "string \<Rightarrow> PrepareDataConfig" where
  "example_cfg ph = \<lparr>dir = \<lparr>data_dir = ''data'', processed_dir = ''out''\<rparr>, phase = ph\<rparr>"

definition example_world :: world where
  "example_world =
     \<lparr>fs = [[''data''] \<mapsto> Dir,
             [''data'', ''train_series.parquet''] \<mapsto> Parquet [example_row],
             [''out''] \<mapsto> Dir,
             [''out'', ''train''] \<mapsto> Dir,
             [''out'', ''train'', ''old.npy''] \<mapsto> Npy [],
             [''out'', ''bogus''] \<mapsto> Dir,
             [''out'', ''bogus'', ''old.npy''] \<mapsto> Npy []],
      events = []\<rparr>"

definition example_features :: dataframe where
  "example_features =
     [[''series_id'' \<mapsto> StrVal ''A'',
       ''anglez'' \<mapsto> FloatVal (Finite 2), ''enmo'' \<mapsto> FloatVal NaN,
       ''hour_sin'' \<mapsto> FloatVal (Finite 0), ''hour_cos'' \<mapsto> FloatVal (Finite 1),
       ''signal_awake'' \<mapsto> FloatVal (Finite 3), ''signal_onset'' \<mapsto> FloatVal (Finite 4),
       ''signal_poly'' \<mapsto> FloatVal (Finite 5)]]"

definition example_empty_world :: world where
  "example_empty_world = \<lparr>fs = [[''out''] \<mapsto> Dir], events = []\<rparr>"

section \<open>Properties\<close>

lemma bind_err_simps [simp]:
  "bind_err (Inl e) f = Inl e" "bind_err (Inr x) f = f x"
  by (simp_all add: bind_err_def)

subsection \<open>Lookup tables\<close>

lemma fold_upd_lookup:
  "fold (\<lambda>k m. m(k \<mapsto> f k)) ks m0 x = (if x \<in> set ks then Some (f x) else m0 x)"
  by (induction ks arbitrary: m0) auto

lemma dict_comprehension_lookup:
  "dict_comprehension f ks x = (if x \<in> set ks then Some (f x) else None)"
  by (simp add: dict_comprehension_def fold_upd_lookup)

lemma dom_dict_comprehension: "dom (dict_comprehension f ks) = set ks"
  by (auto simp: dom_def dict_comprehension_lookup)

lemma set_new_time_units: "set new_time_units = {0..239}"
  by (simp add: new_time_units_def)

lemma norm_pdf_Gaussian:
  assumes "scale \<noteq> 0"
  shows "norm_pdf x loc scale = Gaussian_pdf_spec x loc scale"
proof -
  have "((x - loc) / scale) ^ 2 / 2 = (x - loc) ^ 2 / (2 * scale ^ 2)"
    by (simp add: power_divide)
  then have "exp (- (((x - loc) / scale) ^ 2) / 2) = exp (- ((x - loc) ^ 2) / (2 * scale ^ 2))"
    by simp
  then show ?thesis
    by (simp add: norm_pdf_def Gaussian_pdf_spec_def mult.commute)
qed

lemma calc_mixture_gaussian_spec:
  assumes "sigma1 kw \<noteq> 0" "sigma2 kw \<noteq> 0"
  shows "calc_mixture_gaussian t kw =
           mixture_spec t (w1 kw) (mu1 kw) (sigma1 kw) (mu2 kw) (sigma2 kw)"
  using assms by (simp add: calc_mixture_gaussian_def mixture_spec_def norm_pdf_Gaussian)

text \<open>
  C2. For every bucket \<open>b\<close> from 0 to 239 the tables \<open>signal_awake\<close> and \<open>signal_onset\<close> hold
  the two-component Gaussian mixture density at \<open>b / 10\<close>, with the Gaussian density
  \<open>exp (- (t - mu)\<^sup>2 / (2 sigma\<^sup>2)) / (sigma sqrt (2 pi))\<close> and the published weights, means
  and deviations of the awake and of the onset mixture.
\<close>

theorem signal_mixture_tables:
  assumes "b \<in> {0..239}"
  shows "signal_awake_dict b =
           Some (mixture_spec (real_of_int b / 10)
                   0.47799486 10.89539674 0.87151052 11.82689931 2.06792452)
       \<and> signal_onset_dict b =
           Some (mixture_spec (real_of_int b / 10)
                   0.97292814 2.12861738 1.699476 22.7643724 0.42483832)"
proof -
  have a: "calc_mixture_gaussian (real_of_int b / 10) awake_features =
             mixture_spec (real_of_int b / 10)
               0.47799486 10.89539674 0.87151052 11.82689931 2.06792452"
    by (subst calc_mixture_gaussian_spec) (simp_all add: awake_features_def)
  have o: "calc_mixture_gaussian (real_of_int b / 10) onset_features =
             mixture_spec (real_of_int b / 10)
               0.97292814 2.12861738 1.699476 22.7643724 0.42483832"
    by (subst calc_mixture_gaussian_spec) (simp_all add: onset_features_def)
  from assms have "b \<in> set new_time_units"
    by (simp only: set_new_time_units)
  then show ?thesis
    by (simp add: signal_awake_dict_def signal_onset_dict_def dict_comprehension_lookup a o)
qed

theorem signal_mixture_tables_witness:
  "(37::int) \<in> {0..239}
   \<and> signal_awake_dict 37 =
       Some (mixture_spec (37 / 10) 0.47799486 10.89539674 0.87151052 11.82689931 2.06792452)
   \<and> signal_onset_dict 37 =
       Some (mixture_spec (37 / 10) 0.97292814 2.12861738 1.699476 22.7643724 0.42483832)"
  using signal_mixture_tables [of 37] by simp

text \<open>
  C3. For every bucket \<open>b\<close> from 0 to 239 the table \<open>signal_poly\<close> holds the cubic
  \<open>c0 + c1 t + c2 t\<^sup>2 + c3 t\<^sup>3\<close> at \<open>t = b / 10\<close>, with the four published coefficients from
  the constant to the cubic term.
\<close>

theorem signal_poly_table:
  assumes "b \<in> {0..239}"
  shows "signal_poly_dict b =
           Some (0.7498337722857453
                 + (- 0.29120336781669365) * (real_of_int b / 10)
                 + 0.0325499456141388 * (real_of_int b / 10) ^ 2
                 + (- 0.000865744935362603) * (real_of_int b / 10) ^ 3)"
proof -
  from assms have "b \<in> set new_time_units"
    by (simp only: set_new_time_units)
  then show ?thesis
    by (simp add: signal_poly_dict_def dict_comprehension_lookup poly_fit_def coefficients_def)
qed

theorem signal_poly_table_witness:
  "(239::int) \<in> {0..239}
   \<and> signal_poly_dict 239 =
       Some (0.7498337722857453
             + (- 0.29120336781669365) * (239 / 10)
             + 0.0325499456141388 * (239 / 10) ^ 2
             + (- 0.000865744935362603) * (239 / 10) ^ 3)"
  using signal_poly_table [of 239] by simp

lemma hour_plus_minute_range:
  assumes "h \<in> {0..23}" and "m \<in> {0..59}"
  shows "hour_plus_minute h m \<in> {0..239}"
proof -
  from assms have "0 \<le> m \<and> m \<le> 59"
    by simp
  then have "0 \<le> m div 6 \<and> m div 6 \<le> 9"
    by presburger
  with assms show ?thesis
    by (simp add: hour_plus_minute_def)
qed

lemma dom_tables:
  "dom signal_awake_dict = {0..239}" "dom signal_onset_dict = {0..239}"
  "dom signal_poly_dict = {0..239}"
  by (simp_all only: signal_awake_dict_def signal_onset_dict_def signal_poly_dict_def
      dom_dict_comprehension set_new_time_units)

text \<open>
  C5. For every hour from 0 to 23 and every minute from 0 to 59 the bucket
  \<open>hour * 10 + minute div 6\<close> lies between 0 and 239, and each of the three tables has
  exactly the keys 0 to 239, so the lookup of such a bucket finds an entry in each.
\<close>

theorem time_bucket_tables_total:
  assumes "h \<in> {0..23}" and "m \<in> {0..59}"
  shows "hour_plus_minute h m \<in> {0..239}
       \<and> dom signal_awake_dict = {0..239}
       \<and> dom signal_onset_dict = {0..239}
       \<and> dom signal_poly_dict = {0..239}
       \<and> signal_awake_dict (hour_plus_minute h m) \<noteq> None
       \<and> signal_onset_dict (hour_plus_minute h m) \<noteq> None
       \<and> signal_poly_dict (hour_plus_minute h m) \<noteq> None"
proof -
  have b: "hour_plus_minute h m \<in> {0..239}"
    by (rule hour_plus_minute_range [OF assms])
  then have "hour_plus_minute h m \<in> dom signal_awake_dict"
    "hour_plus_minute h m \<in> dom signal_onset_dict"
    "hour_plus_minute h m \<in> dom signal_poly_dict"
    by (simp_all only: dom_tables)
  then have n: "signal_awake_dict (hour_plus_minute h m) \<noteq> None"
    "signal_onset_dict (hour_plus_minute h m) \<noteq> None"
    "signal_poly_dict (hour_plus_minute h m) \<noteq> None"
    by (simp_all only: domIff not_False_eq_True)
  with b dom_tables show ?thesis
    by simp
qed

theorem time_bucket_tables_total_witness:
  "(23::int) \<in> {0..23} \<and> (59::int) \<in> {0..59}
   \<and> hour_plus_minute 23 59 = 239
   \<and> hour_plus_minute 23 59 \<in> dom signal_awake_dict
   \<and> hour_plus_minute 23 59 \<in> dom signal_onset_dict
   \<and> hour_plus_minute 23 59 \<in> dom signal_poly_dict"
proof -
  have e: "hour_plus_minute 23 59 = 239"
    by (simp add: hour_plus_minute_def)
  from time_bucket_tables_total [of 23 59] e show ?thesis
    by simp
qed

subsection \<open>Circular encoding\<close>

text \<open>
  C4. For every integer \<open>x\<close> and every positive period the encoder returns the sine and the
  cosine of \<open>2 pi (x mod period) / period\<close>, where the modulo is the mathematical one:
  \<open>x mod period = x - period * floor (x / period)\<close>, a value from 0 up to, not including,
  the period, also for a negative \<open>x\<close>.
\<close>

theorem to_coord_periodic:
  assumes "0 < period"
  shows "to_coord x period name =
           [(name @ ''_sin'', sin (2 * pi * real_of_int (x mod period) / real_of_int period)),
            (name @ ''_cos'', cos (2 * pi * real_of_int (x mod period) / real_of_int period))]
       \<and> 0 \<le> x mod period \<and> x mod period < period
       \<and> x mod period = x - period * \<lfloor>real_of_int x / real_of_int period\<rfloor>"
proof -
  have "\<lfloor>real_of_int x / real_of_int period\<rfloor> = x div period"
    by (rule floor_divide_of_int_eq)
  then have f: "x mod period = x - period * \<lfloor>real_of_int x / real_of_int period\<rfloor>"
    by (simp add: minus_mult_div_eq_mod)
  have c: "to_coord x period name =
           [(name @ ''_sin'', sin (2 * pi * real_of_int (x mod period) / real_of_int period)),
            (name @ ''_cos'', cos (2 * pi * real_of_int (x mod period) / real_of_int period))]"
    by (simp add: to_coord_def Let_def)
  from assms have r: "0 \<le> x mod period" "x mod period < period"
    by simp_all
  from c r f show ?thesis
    by blast
qed

theorem to_coord_periodic_witness:
  "(0::int) < 24
   \<and> to_coord (- 1) 24 ''hour'' =
       [(''hour_sin'', sin (2 * pi * 23 / 24)), (''hour_cos'', cos (2 * pi * 23 / 24))]
   \<and> (- 1) mod 24 = (23::int)"
  using to_coord_periodic [of 24 "- 1" "''hour''"] by simp

text \<open>
  C10. With period 24 the two values of the encoder satisfy \<open>s\<^sup>2 + c\<^sup>2 = 1\<close> for every integer
  \<open>x\<close>; the encodings of 0 and of 24 are equal; hour 0 maps to \<open>(0, 1)\<close> and hour 12 to
  \<open>(0, - 1)\<close>.
\<close>

theorem to_coord_unit_circle:
  "(snd (to_coord x 24 name ! 0)) ^ 2 + (snd (to_coord x 24 name ! 1)) ^ 2 = 1
   \<and> to_coord 0 24 name = to_coord 24 24 name
   \<and> to_coord 0 24 name = [(name @ ''_sin'', 0), (name @ ''_cos'', 1)]
   \<and> to_coord 12 24 name = [(name @ ''_sin'', 0), (name @ ''_cos'', - 1)]"
proof -
  have "2 * pi * real_of_int 12 / real_of_int 24 = pi"
    by simp
  then have "to_coord 12 24 name = [(name @ ''_sin'', 0), (name @ ''_cos'', - 1)]"
    by (simp add: to_coord_def Let_def)
  then show ?thesis
    by (simp add: to_coord_def Let_def)
qed

subsection \<open>Normalisation\<close>



subsection \<open>The exporter\<close>

lemma mapM_err_col:
  assumes "\<forall>r\<in>set df. \<exists>x. r c = Some (FloatVal x)"
  shows "\<exists>xs. mapM_err (col c) df = Inr xs \<and> length xs = length df
           \<and> (\<forall>i<length df. (df ! i) c = Some (xs ! i))
           \<and> \<not> list_ex (\<lambda>v. case v of StrVal _ \<Rightarrow> True | _ \<Rightarrow> False) xs"
  using assms
proof (induction df)
  case Nil
  then show ?case by simp
next
  case (Cons r df)
  then obtain xs where xs: "mapM_err (col c) df = Inr xs" "length xs = length df"
    "\<forall>i<length df. (df ! i) c = Some (xs ! i)"
    "\<not> list_ex (\<lambda>v. case v of StrVal _ \<Rightarrow> True | _ \<Rightarrow> False) xs"
    by auto
  from Cons.prems obtain x where x: "r c = Some (FloatVal x)"
    by auto
  have "\<forall>i<length (r # df). ((r # df) ! i) c = Some ((FloatVal x # xs) ! i)"
    using x xs(3) by (auto simp: nth_Cons split: nat.splits)
  moreover from x have "col c r = Inr (FloatVal x)"
    by (simp add: col_def)
  ultimately show ?case
    using xs by simp
qed

lemma column_to_numpy:
  assumes "\<forall>r\<in>set df. \<exists>x. r c = Some (FloatVal x)"
  shows "\<exists>xs. get_column c df = Inr xs \<and> bind_err (get_column c df) to_numpy = Inr xs
           \<and> length xs = length df \<and> (\<forall>i<length df. (df ! i) c = Some (xs ! i))"
  using mapM_err_col [OF assms] by (auto simp: get_column_def to_numpy_def)

lemma mkdir_parents_keeps:
  "mkdir_parents done cs f = Inr f' \<Longrightarrow> f p = Some Dir \<Longrightarrow> f' p = Some Dir"
  by (induction cs arbitrary: "done" f) (auto split: option.splits node.splits)

lemma mkdir_parents_last:
  "mkdir_parents done cs f = Inr f' \<Longrightarrow> cs \<noteq> [] \<Longrightarrow> f' (done @ cs) = Some Dir"
proof (induction cs arbitrary: "done" f)
  case Nil
  then show ?case by simp
next
  case (Cons c cs)
  show ?case
  proof (cases "cs = []")
    case True
    with Cons.prems show ?thesis
      by (auto split: option.splits node.splits)
  next
    case False
    with Cons.prems Cons.IH [of "done @ [c]"] show ?thesis
      by (auto split: option.splits node.splits)
  qed
qed

lemma mkdir_creates:
  assumes "mkdir p w = (Inr (), wa)" and "p \<noteq> []"
  shows "fs wa p = Some Dir" and "events wa = events w @ [Mkdir p]"
  using assms mkdir_parents_last [of "[]" p "fs w"]
  by (auto simp: mkdir_def log_event_def split: sum.splits)

lemma save_columns_step:
  assumes "bind_err (get_column c df) to_numpy = Inr x"
    and "path_div out (c @ ''.npy'') = out @ [c @ ''.npy'']"
    and "out = [] \<or> fs w out = Some Dir"
    and "fs w (out @ [c @ ''.npy'']) \<noteq> Some Dir"
  shows "save_columns df (c # cs) out w =
           save_columns df cs out
             (log_event (NpSave (out @ [c @ ''.npy'']))
                (w\<lparr>fs := (fs w)(out @ [c @ ''.npy''] \<mapsto> Npy x)\<rparr>))"
  using assms by (auto simp: np_save_def)

lemma save_columns_all:
  assumes "\<forall>c\<in>set cs. path_div out (c @ ''.npy'') = out @ [c @ ''.npy'']"
    and "distinct cs"
    and "\<forall>r\<in>set df. \<forall>c\<in>set cs. \<exists>x. r c = Some (FloatVal x)"
    and "out = [] \<or> fs w out = Some Dir"
    and "\<forall>c\<in>set cs. fs w (out @ [c @ ''.npy'']) \<noteq> Some Dir"
  shows "\<exists>wb. save_columns df cs out w = (Inr (), wb)
           \<and> events wb = events w @ map (\<lambda>c. NpSave (out @ [c @ ''.npy''])) cs
           \<and> (\<forall>c\<in>set cs. \<exists>x. get_column c df = Inr x
                  \<and> fs wb (out @ [c @ ''.npy'']) = Some (Npy x)
                  \<and> length x = length df
                  \<and> (\<forall>i<length df. (df ! i) c = Some (x ! i)))
           \<and> (\<forall>q. q \<notin> (\<lambda>c. out @ [c @ ''.npy'']) ` set cs \<longrightarrow> fs wb q = fs w q)"
  using assms
proof (induction cs arbitrary: w)
  case Nil
  then show ?case by simp
next
  case (Cons c cs)
  let ?p = "out @ [c @ ''.npy'']"
  from Cons.prems(3) have "\<forall>r\<in>set df. \<exists>x. r c = Some (FloatVal x)"
    by simp
  from column_to_numpy [OF this] obtain x where x: "get_column c df = Inr x"
    "bind_err (get_column c df) to_numpy = Inr x" "length x = length df"
    "\<forall>i<length df. (df ! i) c = Some (x ! i)"
    by blast
  define w' where "w' = log_event (NpSave ?p) (w\<lparr>fs := (fs w)(?p \<mapsto> Npy x)\<rparr>)"
  have fs': "fs w' = (fs w)(?p \<mapsto> Npy x)" and ev': "events w' = events w @ [NpSave ?p]"
    by (simp_all add: w'_def log_event_def)
  from Cons.prems(1,4,5) x(2)
  have step: "save_columns df (c # cs) out w = save_columns df cs out w'"
    unfolding w'_def by (intro save_columns_step) simp_all
  from Cons.prems(4) have d: "out = [] \<or> fs w' out = Some Dir"
    by (auto simp: fs')
  from Cons.prems(5) have nd: "\<forall>c\<in>set cs. fs w' (out @ [c @ ''.npy'']) \<noteq> Some Dir"
    by (simp add: fs')
  from Cons.prems(1,2,3) have
    "\<forall>c\<in>set cs. path_div out (c @ ''.npy'') = out @ [c @ ''.npy'']" "distinct cs"
    "\<forall>r\<in>set df. \<forall>c\<in>set cs. \<exists>x. r c = Some (FloatVal x)"
    by simp_all
  from Cons.IH [OF this d nd] obtain wb where wb:
    "save_columns df cs out w' = (Inr (), wb)"
    "events wb = events w' @ map (\<lambda>c. NpSave (out @ [c @ ''.npy''])) cs"
    "\<forall>c\<in>set cs. \<exists>x. get_column c df = Inr x
        \<and> fs wb (out @ [c @ ''.npy'']) = Some (Npy x)
        \<and> length x = length df
        \<and> (\<forall>i<length df. (df ! i) c = Some (x ! i))"
    "\<forall>q. q \<notin> (\<lambda>c. out @ [c @ ''.npy'']) ` set cs \<longrightarrow> fs wb q = fs w' q"
    by blast
  from Cons.prems(2) have "?p \<notin> (\<lambda>c. out @ [c @ ''.npy'']) ` set cs"
    by auto
  with wb(4) have "fs wb ?p = Some (Npy x)"
    by (simp add: fs')
  with x have c: "\<exists>x. get_column c df = Inr x \<and> fs wb ?p = Some (Npy x)
      \<and> length x = length df \<and> (\<forall>i<length df. (df ! i) c = Some (x ! i))"
    by blast
  from wb(4) have o:
    "\<forall>q. q \<notin> (\<lambda>c. out @ [c @ ''.npy'']) ` set (c # cs) \<longrightarrow> fs wb q = fs w q"
    by (simp add: fs')
  from step wb(1) have "save_columns df (c # cs) out w = (Inr (), wb)"
    by simp
  moreover from wb(2) have
    "events wb = events w @ map (\<lambda>c. NpSave (out @ [c @ ''.npy''])) (c # cs)"
    by (simp add: ev')
  ultimately show ?case
    using c wb(3) o by auto
qed

text \<open>
  C7. For a series, the exporter called with the feature table, the seven feature names
  and the directory \<open>processed_dir / series_id\<close> creates that directory and writes exactly
  seven files into it, in the order of \<open>FEATURE_NAMES\<close>, the file of a feature named by the
  feature with the extension \<open>.npy\<close>. Each file holds the column of its feature: as many
  values as the table has rows, in the order of the rows. Nothing else in the file system
  changes after the directory is made. The feature columns are taken to be numeric, the
  directory creatable, and no directory to stand where a file is written.
\<close>

theorem exporter_writes_seven_files:
  fixes phase_dir :: path and series_id :: string
  defines "output_dir \<equiv> path_div phase_dir series_id"
  assumes "output_dir \<noteq> []"
    and "\<forall>r\<in>set features. \<forall>c\<in>set FEATURE_NAMES. \<exists>x. r c = Some (FloatVal x)"
    and "mkdir output_dir w = (Inr (), wa)"
    and "\<forall>c\<in>set FEATURE_NAMES. fs wa (output_dir @ [c @ ''.npy'']) \<noteq> Some Dir"
  shows "\<exists>wb. save_each_series features FEATURE_NAMES output_dir w = (Inr (), wb)
           \<and> fs wb output_dir = Some Dir
           \<and> events wb = events w @ Mkdir output_dir
                # map (\<lambda>c. NpSave (output_dir @ [c @ ''.npy''])) FEATURE_NAMES
           \<and> length FEATURE_NAMES = 7
           \<and> distinct (map (\<lambda>c. output_dir @ [c @ ''.npy'']) FEATURE_NAMES)
           \<and> (\<forall>c\<in>set FEATURE_NAMES. \<exists>x. get_column c features = Inr x
                  \<and> fs wb (output_dir @ [c @ ''.npy'']) = Some (Npy x)
                  \<and> length x = length features
                  \<and> (\<forall>i<length features. (features ! i) c = Some (x ! i)))
           \<and> (\<forall>q. q \<notin> (\<lambda>c. output_dir @ [c @ ''.npy'']) ` set FEATURE_NAMES
                  \<longrightarrow> fs wb q = fs wa q)"
proof -
  from mkdir_creates [OF assms(4,2)]
  have dir: "fs wa output_dir = Some Dir" and ev: "events wa = events w @ [Mkdir output_dir]"
    by simp_all
  have paths:
    "\<forall>c\<in>set FEATURE_NAMES. path_div output_dir (c @ ''.npy'') = output_dir @ [c @ ''.npy'']"
    by (simp add: FEATURE_NAMES_def path_div_def Path_def)
  have dist: "distinct FEATURE_NAMES" and len: "length FEATURE_NAMES = 7"
    by (simp_all add: FEATURE_NAMES_def)
  from dir have "output_dir = [] \<or> fs wa output_dir = Some Dir"
    by simp
  from save_columns_all [OF paths dist assms(3) this assms(5)]
  obtain wb where wb: "save_columns features FEATURE_NAMES output_dir wa = (Inr (), wb)"
    "events wb = events wa @ map (\<lambda>c. NpSave (output_dir @ [c @ ''.npy''])) FEATURE_NAMES"
    "\<forall>c\<in>set FEATURE_NAMES. \<exists>x. get_column c features = Inr x
        \<and> fs wb (output_dir @ [c @ ''.npy'']) = Some (Npy x)
        \<and> length x = length features
        \<and> (\<forall>i<length features. (features ! i) c = Some (x ! i))"
    "\<forall>q. q \<notin> (\<lambda>c. output_dir @ [c @ ''.npy'']) ` set FEATURE_NAMES \<longrightarrow> fs wb q = fs wa q"
    by blast
  have "output_dir \<notin> (\<lambda>c. output_dir @ [c @ ''.npy'']) ` set FEATURE_NAMES"
    by auto
  with wb(4) dir have d: "fs wb output_dir = Some Dir"
    by simp
  from dist have dp: "distinct (map (\<lambda>c. output_dir @ [c @ ''.npy'']) FEATURE_NAMES)"
    by (simp add: distinct_map inj_on_def)
  from assms(4) wb(1) have
    "save_each_series features FEATURE_NAMES output_dir w = (Inr (), wb)"
    by (simp add: save_each_series_def)
  moreover from wb(2) ev have "events wb = events w @ Mkdir output_dir
      # map (\<lambda>c. NpSave (output_dir @ [c @ ''.npy''])) FEATURE_NAMES"
    by simp
  ultimately show ?thesis
    using d len dp wb(3,4) by blast
qed

theorem exporter_writes_seven_files_witness:
  "\<exists>wb. save_each_series example_features FEATURE_NAMES (path_div [''out'', ''train''] ''A'')
           example_empty_world = (Inr (), wb)
     \<and> fs wb [''out'', ''train'', ''A''] = Some Dir
     \<and> events wb =
         [Mkdir [''out'', ''train'', ''A''],
          NpSave [''out'', ''train'', ''A'', ''anglez.npy''],
          NpSave [''out'', ''train'', ''A'', ''enmo.npy''],
          NpSave [''out'', ''train'', ''A'', ''hour_sin.npy''],
          NpSave [''out'', ''train'', ''A'', ''hour_cos.npy''],
          NpSave [''out'', ''train'', ''A'', ''signal_awake.npy''],
          NpSave [''out'', ''train'', ''A'', ''signal_onset.npy''],
          NpSave [''out'', ''train'', ''A'', ''signal_poly.npy'']]
     \<and> fs wb [''out'', ''train'', ''A'', ''enmo.npy''] = Some (Npy [FloatVal NaN])
     \<and> fs wb [''out'', ''train'', ''A'', ''hour_cos.npy''] = Some (Npy [FloatVal (Finite 1)])"
proof -
  have p: "path_div [''out'', ''train''] ''A'' = [''out'', ''train'', ''A'']"
    by (simp add: path_div_def Path_def)
  have 1: "path_div [''out'', ''train''] ''A'' \<noteq> []"
    by (simp add: p)
  have 2: "\<forall>r\<in>set example_features. \<forall>c\<in>set FEATURE_NAMES. \<exists>x. r c = Some (FloatVal x)"
    by (simp add: example_features_def FEATURE_NAMES_def)
  have 3: "mkdir (path_div [''out'', ''train''] ''A'') example_empty_world =
      (Inr (), example_empty_world
         \<lparr>fs := (fs example_empty_world)
                  ([''out'', ''train''] \<mapsto> Dir, [''out'', ''train'', ''A''] \<mapsto> Dir),
          events := [Mkdir [''out'', ''train'', ''A'']]\<rparr>)"
    by (simp add: p mkdir_def log_event_def example_empty_world_def)
  have 4: "\<forall>c\<in>set FEATURE_NAMES.
      fs (example_empty_world
         \<lparr>fs := (fs example_empty_world)
                  ([''out'', ''train''] \<mapsto> Dir, [''out'', ''train'', ''A''] \<mapsto> Dir),
          events := [Mkdir [''out'', ''train'', ''A'']]\<rparr>)
        (path_div [''out'', ''train''] ''A'' @ [c @ ''.npy'']) \<noteq> Some Dir"
    by (simp add: p FEATURE_NAMES_def example_empty_world_def)
  have c: "get_column ''enmo'' example_features = Inr [FloatVal NaN]"
    "get_column ''hour_cos'' example_features = Inr [FloatVal (Finite 1)]"
    by (simp_all add: get_column_def col_def example_features_def)
  from exporter_writes_seven_files [OF 1 2 3 4]
  obtain wb where wb:
    "save_each_series example_features FEATURE_NAMES (path_div [''out'', ''train''] ''A'')
       example_empty_world = (Inr (), wb)"
    "fs wb (path_div [''out'', ''train''] ''A'') = Some Dir"
    "events wb = events example_empty_world @ Mkdir (path_div [''out'', ''train''] ''A'')
       # map (\<lambda>c. NpSave (path_div [''out'', ''train''] ''A'' @ [c @ ''.npy''])) FEATURE_NAMES"
    "\<forall>c\<in>set FEATURE_NAMES. \<exists>x. get_column c example_features = Inr x
        \<and> fs wb (path_div [''out'', ''train''] ''A'' @ [c @ ''.npy'']) = Some (Npy x)
        \<and> length x = length example_features
        \<and> (\<forall>i<length example_features. (example_features ! i) c = Some (x ! i))"
    by blast
  have "''enmo'' \<in> set FEATURE_NAMES"
    by (simp add: FEATURE_NAMES_def)
  from bspec [OF wb(4) this]
  have "\<exists>x. get_column ''enmo'' example_features = Inr x
      \<and> fs wb (path_div [''out'', ''train''] ''A'' @ [''enmo'' @ ''.npy'']) = Some (Npy x)"
    by blast
  then have e: "fs wb [''out'', ''train'', ''A'', ''enmo.npy''] = Some (Npy [FloatVal NaN])"
    by (simp add: c p)
  have "''hour_cos'' \<in> set FEATURE_NAMES"
    by (simp add: FEATURE_NAMES_def)
  from bspec [OF wb(4) this]
  have "\<exists>x. get_column ''hour_cos'' example_features = Inr x
      \<and> fs wb (path_div [''out'', ''train''] ''A'' @ [''hour_cos'' @ ''.npy'']) = Some (Npy x)"
    by blast
  then have h: "fs wb [''out'', ''train'', ''A'', ''hour_cos.npy''] = Some (Npy [FloatVal (Finite 1)])"
    by (simp add: c p)
  from wb(2) have d: "fs wb [''out'', ''train'', ''A''] = Some Dir"
    by (simp add: p)
  from wb(3) have "events wb =
         [Mkdir [''out'', ''train'', ''A''],
          NpSave [''out'', ''train'', ''A'', ''anglez.npy''],
          NpSave [''out'', ''train'', ''A'', ''enmo.npy''],
          NpSave [''out'', ''train'', ''A'', ''hour_sin.npy''],
          NpSave [''out'', ''train'', ''A'', ''hour_cos.npy''],
          NpSave [''out'', ''train'', ''A'', ''signal_awake.npy''],
          NpSave [''out'', ''train'', ''A'', ''signal_onset.npy''],
          NpSave [''out'', ''train'', ''A'', ''signal_poly.npy'']]"
    by (simp add: p FEATURE_NAMES_def example_empty_world_def)
  with wb(1) d e h show ?thesis
    by blast
qed

subsection \<open>The driver\<close>

lemma add_feature_raises: "add_feature series_df \<noteq> Inr features"
  by (cases "mapM_err hour_coords_row series_df") (simp_all add: add_feature_def pl_Series_def)

lemma load_global_deg_to_rad: "load_global ''deg_to_rad'' = Inl (NameError ''deg_to_rad'')"
  by (simp add: load_global_def module_globals_def builtins_used_def)

lemma preprocess_fails: "preprocess to_datetime lf = Inl (NameError ''deg_to_rad'')"
  by (simp add: preprocess_def load_global_deg_to_rad)

lemma remove_phase_dir_result:
  assumes "fs w (phase_dir_of cfg) = None \<or> fs w (phase_dir_of cfg) = Some Dir"
  shows "remove_phase_dir cfg w =
           (Inr (),
            w\<lparr>fs := (\<lambda>q. if fs w (phase_dir_of cfg) \<noteq> None \<and> prefix (phase_dir_of cfg) q
                         then None else fs w q),
              events := events w @ removal_events cfg w\<rparr>)"
  using assms
  by (auto simp: remove_phase_dir_def path_exists_def rmtree_def py_print_def log_event_def
      removal_events_def cong: if_cong)

lemma remove_phase_dir_world:
  assumes "fs w (phase_dir_of cfg) = None \<or> fs w (phase_dir_of cfg) = Some Dir"
  shows "\<exists>wa. remove_phase_dir cfg w = (Inr (), wa)
           \<and> fs wa = (\<lambda>q. if fs w (phase_dir_of cfg) \<noteq> None \<and> prefix (phase_dir_of cfg) q
                          then None else fs w q)
           \<and> events wa = events w @ removal_events cfg w"
  by (simp add: remove_phase_dir_result [OF assms])

lemma main_events_extend:
  assumes "remove_phase_dir cfg w = (Inr (), wa)"
  shows "prefix (events wa) (events (snd (main to_datetime cfg w)))"
  using assms
  by (auto simp: main_def preprocess_fails load_series_def scan_parquet_def log_event_def
      split: option.splits node.splits)

lemma example_paths:
  "phase_dir_of (example_cfg ''train'') = [''out'', ''train'']"
  "phase_dir_of (example_cfg ''bogus'') = [''out'', ''bogus'']"
  "phase_dir_of (example_cfg ''validation'') = [''out'', ''validation'']"
  "input_path_of (example_cfg ''train'') = [''data'', ''train_series.parquet'']"
  by (simp_all add: phase_dir_of_def input_path_of_def example_cfg_def path_div_def Path_def)

lemma example_fs:
  "fs example_world [''out'', ''train''] = Some Dir"
  "fs example_world [''out'', ''bogus''] = Some Dir"
  "fs example_world [''out'', ''validation''] = None"
  "fs example_world [''out''] = Some Dir"
  "fs example_world [''out'', ''train'', ''old.npy''] = Some (Npy [])"
  "fs example_world [''out'', ''bogus'', ''old.npy''] = Some (Npy [])"
  "fs example_world [''data'', ''train_series.parquet''] = Some (Parquet [example_row])"
  "events example_world = []"
  by (simp_all add: example_world_def)

lemma example_removal_events:
  "removal_events (example_cfg ''train'') example_world =
     [PathExists [''out'', ''train''], Rmtree [''out'', ''train''],
      Print ''Removed train dir: out/train'']"
  "removal_events (example_cfg ''bogus'') example_world =
     [PathExists [''out'', ''bogus''], Rmtree [''out'', ''bogus''],
      Print ''Removed bogus dir: out/bogus'']"
  "removal_events (example_cfg ''validation'') example_world = [PathExists [''out'', ''validation'']]"
  by (simp_all add: removal_events_def example_paths example_fs) (simp_all add: example_cfg_def)

lemma example_run_train:
  "main example_to_datetime (example_cfg ''train'') example_world =
     (Inl (NameError ''deg_to_rad''),
      example_world
        \<lparr>fs := (\<lambda>q. if prefix [''out'', ''train''] q then None else fs example_world q),
         events := [PathExists [''out'', ''train''], Rmtree [''out'', ''train''],
                    Print ''Removed train dir: out/train'',
                    ScanParquet [''data'', ''train_series.parquet'']]\<rparr>)"
proof -
  have r: "remove_phase_dir (example_cfg ''train'') example_world =
      (Inr (), example_world
        \<lparr>fs := (\<lambda>q. if prefix [''out'', ''train''] q then None else fs example_world q),
         events := [PathExists [''out'', ''train''], Rmtree [''out'', ''train''],
                    Print ''Removed train dir: out/train'']\<rparr>)"
    by (simp add: remove_phase_dir_def path_exists_def rmtree_def py_print_def log_event_def
        example_paths example_fs cong: if_cong) (simp add: example_cfg_def)
  have l: "load_series (example_cfg ''train'') wa =
      scan_parquet [''data'', ''train_series.parquet''] wa" for wa
    by (simp add: load_series_def example_cfg_def path_div_def Path_def)
  show ?thesis
    by (simp add: main_def r l scan_parquet_def example_fs preprocess_fails log_event_def)
qed

lemma example_run_bogus:
  "main example_to_datetime (example_cfg ''bogus'') example_world =
     (Inl (ValueError ''Invalid phase: bogus''),
      example_world
        \<lparr>fs := (\<lambda>q. if prefix [''out'', ''bogus''] q then None else fs example_world q),
         events := [PathExists [''out'', ''bogus''], Rmtree [''out'', ''bogus''],
                    Print ''Removed bogus dir: out/bogus'']\<rparr>)"
proof -
  have r: "remove_phase_dir (example_cfg ''bogus'') example_world =
      (Inr (), example_world
        \<lparr>fs := (\<lambda>q. if prefix [''out'', ''bogus''] q then None else fs example_world q),
         events := [PathExists [''out'', ''bogus''], Rmtree [''out'', ''bogus''],
                    Print ''Removed bogus dir: out/bogus'']\<rparr>)"
    by (simp add: remove_phase_dir_def path_exists_def rmtree_def py_print_def log_event_def
        example_paths example_fs cong: if_cong) (simp add: example_cfg_def)
  show ?thesis
    by (simp add: main_def r load_series_def) (simp add: example_cfg_def)
qed

text \<open>
  C1. For each of the phases \<open>train\<close>, \<open>test\<close> and \<open>dev\<close> and every input table, \<open>main\<close>
  ends with the NameError of \<open>deg_to_rad\<close>, raised in the preprocessing statement. Up to
  then it has tested for the phase directory, removed it with all below it if it was
  there, and scanned the input file; nothing else has happened, so no feature is computed
  and no file is written. The phase directory is taken to be absent or a directory, and
  the input file to be a table that does not lie below the phase directory.
\<close>

theorem main_raises_name_error:
  assumes "phase cfg \<in> {''train'', ''test'', ''dev''}"
    and "fs w (phase_dir_of cfg) = None \<or> fs w (phase_dir_of cfg) = Some Dir"
    and "fs w (input_path_of cfg) = Some (Parquet table)"
    and "\<not> prefix (phase_dir_of cfg) (input_path_of cfg)"
  shows "fst (main to_datetime cfg w) = Inl (NameError ''deg_to_rad'')
       \<and> events (snd (main to_datetime cfg w)) =
           events w @ removal_events cfg w @ [ScanParquet (input_path_of cfg)]
       \<and> fs (snd (main to_datetime cfg w)) =
           (\<lambda>q. if fs w (phase_dir_of cfg) \<noteq> None \<and> prefix (phase_dir_of cfg) q
                 then None else fs w q)"
proof -
  from remove_phase_dir_world [OF assms(2)] obtain wa where
    r: "remove_phase_dir cfg w = (Inr (), wa)"
    and f: "fs wa = (\<lambda>q. if fs w (phase_dir_of cfg) \<noteq> None \<and> prefix (phase_dir_of cfg) q
                          then None else fs w q)"
    and e: "events wa = events w @ removal_events cfg w"
    by blast
  from assms(3,4) have "fs wa (input_path_of cfg) = Some (Parquet table)"
    by (simp add: f)
  then have s: "scan_parquet (input_path_of cfg) wa =
      (Inr table, log_event (ScanParquet (input_path_of cfg)) wa)"
    by (simp add: scan_parquet_def)
  from assms(1) have "load_series cfg wa = scan_parquet (input_path_of cfg) wa"
    by (auto simp: load_series_def input_path_of_def)
  with s have l: "load_series cfg wa =
      (Inr table, log_event (ScanParquet (input_path_of cfg)) wa)"
    by simp
  have "main to_datetime cfg w =
      (Inl (NameError ''deg_to_rad''), log_event (ScanParquet (input_path_of cfg)) wa)"
    by (simp add: main_def r l preprocess_fails)
  then show ?thesis
    by (simp add: log_event_def f e)
qed

theorem main_raises_name_error_witness:
  "fst (main example_to_datetime (example_cfg ''train'') example_world)
     = Inl (NameError ''deg_to_rad'')
   \<and> events (snd (main example_to_datetime (example_cfg ''train'') example_world))
     = [PathExists [''out'', ''train''], Rmtree [''out'', ''train''],
        Print ''Removed train dir: out/train'',
        ScanParquet [''data'', ''train_series.parquet'']]
   \<and> fs example_world [''out'', ''train'', ''old.npy''] = Some (Npy [])
   \<and> fs (snd (main example_to_datetime (example_cfg ''train'') example_world))
        [''out'', ''train'', ''old.npy''] = None"
proof -
  have 1: "phase (example_cfg ''train'') \<in> {''train'', ''test'', ''dev''}"
    by (simp add: example_cfg_def)
  have 2: "fs example_world (phase_dir_of (example_cfg ''train'')) = None
      \<or> fs example_world (phase_dir_of (example_cfg ''train'')) = Some Dir"
    by (simp add: example_paths example_fs)
  have 3: "fs example_world (input_path_of (example_cfg ''train'')) = Some (Parquet [example_row])"
    by (simp add: example_paths example_fs)
  have 4: "\<not> prefix (phase_dir_of (example_cfg ''train'')) (input_path_of (example_cfg ''train''))"
    by (simp add: example_paths)
  from main_raises_name_error [OF 1 2 3 4, of example_to_datetime]
  show ?thesis
    by (simp add: example_paths example_fs example_removal_events)
qed

text \<open>
  C8, amended. For a phase other than \<open>train\<close>, \<open>test\<close> and \<open>dev\<close>, \<open>main\<close> ends
  with the ValueError of the invalid phase, before any input file is opened and before
  anything is created. Before that it has tested for the directory of that phase name
  under the processed directory and, if it was there, removed it with all below it.
\<close>

theorem invalid_phase_aborts_after_removal:
  assumes "phase cfg \<notin> {''train'', ''test'', ''dev''}"
    and "fs w (phase_dir_of cfg) = None \<or> fs w (phase_dir_of cfg) = Some Dir"
  shows "fst (main to_datetime cfg w) = Inl (ValueError (''Invalid phase: '' @ phase cfg))
       \<and> events (snd (main to_datetime cfg w)) = events w @ removal_events cfg w
       \<and> fs (snd (main to_datetime cfg w)) =
           (\<lambda>q. if fs w (phase_dir_of cfg) \<noteq> None \<and> prefix (phase_dir_of cfg) q
                 then None else fs w q)"
proof -
  from remove_phase_dir_world [OF assms(2)] obtain wa where
    r: "remove_phase_dir cfg w = (Inr (), wa)"
    and f: "fs wa = (\<lambda>q. if fs w (phase_dir_of cfg) \<noteq> None \<and> prefix (phase_dir_of cfg) q
                          then None else fs w q)"
    and e: "events wa = events w @ removal_events cfg w"
    by blast
  from assms(1) have l: "load_series cfg wa =
      (Inl (ValueError (''Invalid phase: '' @ phase cfg)), wa)"
    by (simp add: load_series_def)
  have "main to_datetime cfg w = (Inl (ValueError (''Invalid phase: '' @ phase cfg)), wa)"
    by (simp add: main_def r l)
  then show ?thesis
    by (simp add: f e)
qed

theorem invalid_phase_aborts_after_removal_witness:
  "fst (main example_to_datetime (example_cfg ''validation'') example_world)
     = Inl (ValueError ''Invalid phase: validation'')
   \<and> events (snd (main example_to_datetime (example_cfg ''validation'') example_world))
     = [PathExists [''out'', ''validation'']]
   \<and> fs (snd (main example_to_datetime (example_cfg ''validation'') example_world)) = fs example_world"
proof -
  have 1: "phase (example_cfg ''validation'') \<notin> {''train'', ''test'', ''dev''}"
    by (simp add: example_cfg_def)
  have 2: "fs example_world (phase_dir_of (example_cfg ''validation'')) = None
      \<or> fs example_world (phase_dir_of (example_cfg ''validation'')) = Some Dir"
    by (simp add: example_paths example_fs)
  from invalid_phase_aborts_after_removal [OF 1 2, of example_to_datetime]
  show ?thesis
    by (simp add: example_paths example_fs example_removal_events) (simp add: example_cfg_def)
qed

text \<open>
  C8 as stated fails: with the phase \<open>bogus\<close> and a directory \<open>out/bogus\<close>
  of an earlier run, the run tests for the directory and removes it, with the file in it,
  before it ends with the ValueError.
\<close>

theorem invalid_phase_io_before_abort:
  "fst (main example_to_datetime (example_cfg ''bogus'') example_world)
     = Inl (ValueError ''Invalid phase: bogus'')
   \<and> events (snd (main example_to_datetime (example_cfg ''bogus'') example_world))
     = [PathExists [''out'', ''bogus''], Rmtree [''out'', ''bogus''],
        Print ''Removed bogus dir: out/bogus'']
   \<and> fs example_world [''out'', ''bogus'', ''old.npy''] = Some (Npy [])
   \<and> fs (snd (main example_to_datetime (example_cfg ''bogus'') example_world))
        [''out'', ''bogus'', ''old.npy''] = None"
  by (simp add: example_run_bogus example_fs)

lemma main_after_removal:
  assumes "remove_phase_dir cfg w = (Inr (), wa)"
  shows "events (snd (main to_datetime cfg w)) =
           events wa @ (if phase cfg \<in> {''train'', ''test'', ''dev''}
                        then [ScanParquet (input_path_of cfg)] else [])"
    and "fs (snd (main to_datetime cfg w)) = fs wa"
  using assms
  by (auto simp: main_def preprocess_fails load_series_def input_path_of_def scan_parquet_def
      log_event_def split: option.splits node.splits)

text \<open>
  C9, amended. The first operations of every run are the test for the phase
  directory and, if it is there, its removal. After them nothing exists at or below the
  phase directory, and everything else is as it was. The directory is not made again at
  this point: the one operation of the run after the removal is the scan of the input
  file, for a valid phase, and the file system stays as the removal left it. The phase
  directory is taken to be absent, with nothing below it, or a directory.
\<close>

theorem phase_dir_removed_first:
  assumes "fs w (phase_dir_of cfg) = None \<or> fs w (phase_dir_of cfg) = Some Dir"
    and "fs w (phase_dir_of cfg) = None \<longrightarrow> (\<forall>q. prefix (phase_dir_of cfg) q \<longrightarrow> fs w q = None)"
  shows "\<exists>wa. remove_phase_dir cfg w = (Inr (), wa)
           \<and> (\<forall>q. prefix (phase_dir_of cfg) q \<longrightarrow> fs wa q = None)
           \<and> (\<forall>q. \<not> prefix (phase_dir_of cfg) q \<longrightarrow> fs wa q = fs w q)
           \<and> events wa = events w @ removal_events cfg w
           \<and> (\<forall>p. Mkdir p \<notin> set (removal_events cfg w))
           \<and> prefix (events wa) (events (snd (main to_datetime cfg w)))
           \<and> events (snd (main to_datetime cfg w)) =
               events w @ removal_events cfg w
                 @ (if phase cfg \<in> {''train'', ''test'', ''dev''}
                    then [ScanParquet (input_path_of cfg)] else [])
           \<and> fs (snd (main to_datetime cfg w)) = fs wa"
proof -
  from remove_phase_dir_world [OF assms(1)] obtain wa where
    r: "remove_phase_dir cfg w = (Inr (), wa)"
    and f: "fs wa = (\<lambda>q. if fs w (phase_dir_of cfg) \<noteq> None \<and> prefix (phase_dir_of cfg) q
                          then None else fs w q)"
    and e: "events wa = events w @ removal_events cfg w"
    by blast
  from assms(2) have "\<forall>q. prefix (phase_dir_of cfg) q \<longrightarrow> fs wa q = None"
    by (auto simp: f)
  moreover have "\<forall>q. \<not> prefix (phase_dir_of cfg) q \<longrightarrow> fs wa q = fs w q"
    by (simp add: f)
  moreover have "\<forall>p. Mkdir p \<notin> set (removal_events cfg w)"
    by (simp add: removal_events_def)
  moreover note main_events_extend [OF r, of to_datetime]
  moreover from main_after_removal(1) [OF r, of to_datetime] e
  have "events (snd (main to_datetime cfg w)) =
      events w @ removal_events cfg w
        @ (if phase cfg \<in> {''train'', ''test'', ''dev''}
           then [ScanParquet (input_path_of cfg)] else [])"
    by simp
  moreover note main_after_removal(2) [OF r, of to_datetime]
  ultimately show ?thesis
    using r e by blast
qed

theorem phase_dir_removed_first_witness:
  "\<exists>wa. remove_phase_dir (example_cfg ''train'') example_world = (Inr (), wa)
     \<and> fs wa [''out'', ''train''] = None
     \<and> fs wa [''out'', ''train'', ''old.npy''] = None
     \<and> fs wa [''out''] = Some Dir
     \<and> events wa = [PathExists [''out'', ''train''], Rmtree [''out'', ''train''],
                     Print ''Removed train dir: out/train'']
     \<and> events (snd (main example_to_datetime (example_cfg ''train'') example_world)) =
         [PathExists [''out'', ''train''], Rmtree [''out'', ''train''],
          Print ''Removed train dir: out/train'',
          ScanParquet [''data'', ''train_series.parquet'']]
     \<and> fs (snd (main example_to_datetime (example_cfg ''train'') example_world)) = fs wa"
proof -
  have 1: "fs example_world (phase_dir_of (example_cfg ''train'')) = None
      \<or> fs example_world (phase_dir_of (example_cfg ''train'')) = Some Dir"
    by (simp add: example_paths example_fs)
  have 2: "fs example_world (phase_dir_of (example_cfg ''train'')) = None \<longrightarrow>
      (\<forall>q. prefix (phase_dir_of (example_cfg ''train'')) q \<longrightarrow> fs example_world q = None)"
    by (simp add: example_paths example_fs)
  have ph: "phase (example_cfg ''train'') \<in> {''train'', ''test'', ''dev''}"
    by (simp add: example_cfg_def)
  from phase_dir_removed_first [OF 1 2, of example_to_datetime]
  obtain wa where wa: "remove_phase_dir (example_cfg ''train'') example_world = (Inr (), wa)"
    "\<forall>q. prefix (phase_dir_of (example_cfg ''train'')) q \<longrightarrow> fs wa q = None"
    "\<forall>q. \<not> prefix (phase_dir_of (example_cfg ''train'')) q \<longrightarrow> fs wa q = fs example_world q"
    "events wa = events example_world @ removal_events (example_cfg ''train'') example_world"
    "events (snd (main example_to_datetime (example_cfg ''train'') example_world)) =
       events example_world @ removal_events (example_cfg ''train'') example_world
         @ (if phase (example_cfg ''train'') \<in> {''train'', ''test'', ''dev''}
            then [ScanParquet (input_path_of (example_cfg ''train''))] else [])"
    "fs (snd (main example_to_datetime (example_cfg ''train'') example_world)) = fs wa"
    by blast
  from wa(2) have "fs wa [''out'', ''train''] = None" "fs wa [''out'', ''train'', ''old.npy''] = None"
    by (simp_all add: example_paths)
  moreover from wa(3) have "fs wa [''out''] = Some Dir"
    by (simp add: example_paths example_fs)
  moreover from wa(4) have "events wa = [PathExists [''out'', ''train''], Rmtree [''out'', ''train''],
                     Print ''Removed train dir: out/train'']"
    by (simp add: example_fs example_removal_events)
  moreover from wa(5) ph have
    "events (snd (main example_to_datetime (example_cfg ''train'') example_world)) =
         [PathExists [''out'', ''train''], Rmtree [''out'', ''train''],
          Print ''Removed train dir: out/train'',
          ScanParquet [''data'', ''train_series.parquet'']]"
    by (simp only: if_True) (simp add: example_fs example_removal_events example_paths)
  ultimately show ?thesis
    using wa(1,6) by blast
qed

text \<open>
  C9 as stated fails: in the sample run of the phase \<open>train\<close> the directory
  \<open>out/train\<close> is removed, the input is scanned next, and no directory is made; at the end
  of the run there is no \<open>out/train\<close>.
\<close>

theorem phase_dir_not_recreated:
  "fs example_world [''out'', ''train''] = Some Dir
   \<and> events (snd (main example_to_datetime (example_cfg ''train'') example_world))
     = [PathExists [''out'', ''train''], Rmtree [''out'', ''train''],
        Print ''Removed train dir: out/train'',
        ScanParquet [''data'', ''train_series.parquet'']]
   \<and> fs (snd (main example_to_datetime (example_cfg ''train'') example_world))
        [''out'', ''train''] = None"
  by (simp add: example_run_train example_fs)

end
